theory Spec2Isabelle
  imports Main
begin

section \<open>Values, errors and requests\<close>

text \<open>
  \<^verbatim>\<open>BedrockError(message, type, details, cause)\<close> keeps its type string as the error's
  \<^verbatim>\<open>name\<close>. The details object is free-form, so it is an association list. Errors that
  come from the collaborating modules (identity store, strategies, session machinery)
  are \<open>Error\<close>; a property read on \<^verbatim>\<open>null\<close> or \<^verbatim>\<open>undefined\<close> is a \<open>TypeError\<close>.
\<close>

datatype detail = DBool bool | DNum nat | DStr string

datatype error =
    BedrockError (message: string) (name: string) (details: "(string \<times> detail) list")
      (cause: "error option")
  | Error string
  | TypeError string

text \<open>
  An identity record is owned by the identity module; of its fields this module compares
  only the \<^verbatim>\<open>id\<close> (\<open>id_field\<close> here), \<^verbatim>\<open>label\<close> stands for the rest. A user object
  is \<^verbatim>\<open>{identity: ...}\<close>, where the identity may be \<^verbatim>\<open>null\<close>
  (\<^verbatim>\<open>deserializeUser\<close> builds \<^verbatim>\<open>{identity: null}\<close> for a null session entry).
\<close>

record identity =
  id_field :: string
  label :: string

record user =
  identity :: "identity option"

text \<open>What a check can hand over as \<^verbatim>\<open>user\<close>: one of the falsy values or a user object.\<close>

datatype userval = JFalse | JNull | JUndefined | JUser user

fun truthy :: "userval \<Rightarrow> bool" where
  "truthy (JUser u) = True"
| "truthy v = False"

definition js_or :: "userval \<Rightarrow> userval \<Rightarrow> userval" where
  "js_or a b = (if truthy a then a else b)"

text \<open>
  Of a request the module reads \<^verbatim>\<open>req.user\<close>, \<^verbatim>\<open>req.body\<close> (with its
  \<^verbatim>\<open>sysIdentifier\<close>; whatever else was posted stays in the record's extension) and
  \<^verbatim>\<open>req.query.usage\<close>.
\<close>

record body =
  sysIdentifier :: string

record 'b request =
  user :: userval
  body :: "'b body_scheme"
  query_usage :: "string option"

text \<open>
  \<^verbatim>\<open>req.isAuthenticated()\<close> is the session machinery's request extension; with the default
  user property (as \<^verbatim>\<open>configure\<close> initialises it) it is \<^verbatim>\<open>req.user ? true : false\<close>.
\<close>

definition isAuthenticated :: "('b, 'a) request_scheme \<Rightarrow> bool" where
  "isAuthenticated req = truthy (user req)"

section \<open>Authentication strategies as collaborators\<close>

text \<open>
  \<^verbatim>\<open>passport.authenticate(name, cb)(req, res, next)\<close> with a custom callback ends in one
  of two ways: it calls \<^verbatim>\<open>cb(err, user, info)\<close>, or it calls \<^verbatim>\<open>next(err)\<close> itself.
  What the strategy passed as \<^verbatim>\<open>info\<close> may be absent.
\<close>

record info =
  matches :: "string list option"
  email :: string

datatype auth_outcome =
    AuthCallback "error option" userval "info option"
  | AuthNext "error option"

section \<open>checkAuthentication\<close>

datatype 'a task_result = TaskOk 'a | TaskErr error | TaskThrew error

definition MODULE_NS_website :: string where
  "MODULE_NS_website = ''bedrock.website''"

definition session_task :: "('b, 'a) request_scheme \<Rightarrow> userval task_result" where
  "session_task req = TaskOk (if isAuthenticated req then user req else JFalse)"

definition httpSignature_task :: "bool \<Rightarrow> auth_outcome \<Rightarrow> userval task_result" where
  "httpSignature_task enabled strategy =
     (if \<not> enabled then TaskOk JFalse
      else case strategy of
        AuthCallback err u i \<Rightarrow>
          (case err of Some e \<Rightarrow> TaskErr e | None \<Rightarrow> TaskOk u)
      | AuthNext err \<Rightarrow>
          (case err of Some e \<Rightarrow> TaskErr e | None \<Rightarrow> TaskOk JUndefined))"

text \<open>
  Reading \<^verbatim>\<open>x.identity.id\<close>: a missing identity makes the read throw.
\<close>

fun identity_id :: "userval \<Rightarrow> error + string" where
  "identity_id (JUser u) =
     (case identity u of
        None \<Rightarrow> Inl (TypeError ''Cannot read property id of null'')
      | Some i \<Rightarrow> Inr (id_field i))"
| "identity_id v = Inl (TypeError ''Cannot read property identity of undefined'')"

definition mismatch_error :: error where
  "mismatch_error =
     BedrockError ''Request authentication mismatch.''
       (MODULE_NS_website @ ''.PermissionDenied'')
       [(''public'', DBool True), (''httpStatusCode'', DNum 400)] None"

definition auth_task :: "userval \<Rightarrow> userval \<Rightarrow> userval task_result" where
  "auth_task session httpSignature =
     (if truthy session \<and> truthy httpSignature then
        (case identity_id session of
           Inl e \<Rightarrow> TaskThrew e
         | Inr sid \<Rightarrow>
            (case identity_id httpSignature of
               Inl e \<Rightarrow> TaskThrew e
             | Inr hid \<Rightarrow>
                 if sid \<noteq> hid then TaskErr mismatch_error
                 else TaskOk (js_or (js_or session httpSignature) JFalse)))
      else TaskOk (js_or (js_or session httpSignature) JFalse))"

text \<open>
  \<^verbatim>\<open>async.auto\<close> (the callback-style library the module uses) keeps a results object and
  a final callback that fires once: with the first error a task reports, or with the
  results after the last task. A task whose requirements are all in the results object
  is started as soon as that holds. The two checks have no requirements; \<^verbatim>\<open>auth\<close>
  requires both. The state below is what \<^verbatim>\<open>async.auto\<close> holds for this call.
\<close>

datatype final_call = FinalErr error | FinalOk userval | Uncaught error

record auto_state =
  r_session :: "userval option"
  r_httpSignature :: "userval option"
  r_auth :: "userval option"
  final :: "final_call option"

definition auto_init :: auto_state where
  "auto_init = \<lparr>r_session = None, r_httpSignature = None, r_auth = None, final = None\<rparr>"

definition fire :: "final_call \<Rightarrow> auto_state \<Rightarrow> auto_state" where
  "fire c st = (if final st = None then st\<lparr>final := Some c\<rparr> else st)"

definition run_auth :: "auto_state \<Rightarrow> auto_state" where
  "run_auth st =
     (case (r_session st, r_httpSignature st, r_auth st) of
        (Some s, Some h, None) \<Rightarrow>
          (case auth_task s h of
             TaskOk v \<Rightarrow> fire (FinalOk v) (st\<lparr>r_auth := Some v\<rparr>)
           | TaskErr e \<Rightarrow> fire (FinalErr e) st
           | TaskThrew e \<Rightarrow> fire (Uncaught e) st)
      | _ \<Rightarrow> st)"

datatype task = Session | HttpSignature

definition task_done :: "task \<Rightarrow> userval task_result \<Rightarrow> auto_state \<Rightarrow> auto_state" where
  "task_done k r st =
     (case r of
        TaskErr e \<Rightarrow> fire (FinalErr e) st
      | TaskThrew e \<Rightarrow> fire (Uncaught e) st
      | TaskOk v \<Rightarrow>
          run_auth (case k of
            Session \<Rightarrow> st\<lparr>r_session := Some v\<rparr>
          | HttpSignature \<Rightarrow> st\<lparr>r_httpSignature := Some v\<rparr>))"

text \<open>The order in which the two parallel checks report.\<close>

datatype completion_order = SessionFirst | HttpSignatureFirst

fun completions :: "completion_order \<Rightarrow> task list" where
  "completions SessionFirst = [Session, HttpSignature]"
| "completions HttpSignatureFirst = [HttpSignature, Session]"

definition async_auto ::
  "completion_order \<Rightarrow> userval task_result \<Rightarrow> userval task_result \<Rightarrow> auto_state" where
  "async_auto ord session httpSignature =
     foldl (\<lambda>st k. task_done k (case k of Session \<Rightarrow> session | HttpSignature \<Rightarrow> httpSignature) st)
       auto_init (completions ord)"

text \<open>
  What the caller of \<^verbatim>\<open>checkAuthentication\<close> sees: its callback invoked with
  \<^verbatim>\<open>(err, info)\<close>, an exception that escaped, or nothing.
\<close>

datatype check_result = Callback "error option" userval | Threw error | NotCalled

definition authentication_error :: "error \<Rightarrow> error" where
  "authentication_error err =
     BedrockError ''Request authentication error.''
       (MODULE_NS_website @ ''.PermissionDenied'')
       [(''public'', DBool True), (''httpStatusCode'', DNum 400)] (Some err)"

definition checkAuthentication ::
  "completion_order \<Rightarrow> bool \<Rightarrow> auth_outcome \<Rightarrow> ('b, 'a) request_scheme \<Rightarrow> check_result" where
  "checkAuthentication ord enabled strategy req =
     (case final (async_auto ord (session_task req) (httpSignature_task enabled strategy)) of
        Some (FinalErr err) \<Rightarrow> Callback (Some (authentication_error err)) JUndefined
      | Some (FinalOk v) \<Rightarrow> Callback None v
      | Some (Uncaught e) \<Rightarrow> Threw e
      | None \<Rightarrow> NotCalled)"

section \<open>optionallyAuthenticated and ensureAuthenticated\<close>

text \<open>
  How a middleware hands the request on: \<^verbatim>\<open>next()\<close>, \<^verbatim>\<open>next(err)\<close>, an exception that
  escaped, or no call at all.
\<close>

datatype handoff = Next "error option" | Escaped error | Pending

definition optionallyAuthenticated ::
  "completion_order \<Rightarrow> bool \<Rightarrow> auth_outcome \<Rightarrow> ('b, 'a) request_scheme
     \<Rightarrow> ('b, 'a) request_scheme \<times> handoff" where
  "optionallyAuthenticated ord enabled strategy req =
     (case checkAuthentication ord enabled strategy req of
        Callback (Some err) i \<Rightarrow> (req, Next (Some err))
      | Callback None i \<Rightarrow> ((if truthy i then req\<lparr>user := i\<rparr> else req), Next None)
      | Threw e \<Rightarrow> (req, Escaped e)
      | NotCalled \<Rightarrow> (req, Pending))"



section \<open>Route wiring\<close>

text \<open>
  \<^verbatim>\<open>addRoutes\<close> registers each route with its middleware stack, in order.
  \<^verbatim>\<open>validate(name)\<close> checks the body against a named schema,
  \<^verbatim>\<open>validate({query: name})\<close> the query string.
\<close>

datatype http_method = GET | POST

datatype schema = BodySchema string | QuerySchema string

datatype handler =
    RenderCreate | PostJoin | LoginResource | PostLogin | Logout
  | PostPasswordReset | RenderPasscode | PostPasscode

datatype middleware = validate schema | handle handler

record route =
  route_method :: http_method
  path :: string
  stack :: "middleware list"

definition addRoutes :: "bool \<Rightarrow> route list" where
  "addRoutes enableCreateIdentity =
     (if enableCreateIdentity then
        [\<lparr>route_method = GET, path = ''/join'', stack = [handle RenderCreate]\<rparr>,
         \<lparr>route_method = POST, path = ''/join'',
          stack = [validate (BodySchema ''services.session.postJoin''), handle PostJoin]\<rparr>]
      else []) @
     [\<lparr>route_method = GET, path = ''/session/login'', stack = [handle LoginResource]\<rparr>,
      \<lparr>route_method = POST, path = ''/session/login'',
       stack = [validate (BodySchema ''services.session.postLogin''), handle PostLogin]\<rparr>,
      \<lparr>route_method = GET, path = ''/session/logout'', stack = [handle Logout]\<rparr>,
      \<lparr>route_method = POST, path = ''/session/password/reset'',
       stack = [validate (BodySchema ''services.session.postPasswordReset''),
                handle PostPasswordReset]\<rparr>,
      \<lparr>route_method = GET, path = ''/session/passcode'',
       stack = [validate (QuerySchema ''services.session.getPasscodeQuery''),
                handle RenderPasscode]\<rparr>,
      \<lparr>route_method = POST, path = ''/session/passcode'',
       stack = [validate (BodySchema ''services.session.postPasscode''), handle PostPasscode]\<rparr>]"

text \<open>
  The framework runs a route's stack in order. A validation middleware calls
  \<^verbatim>\<open>next()\<close> when the schema accepts and \<^verbatim>\<open>next(err)\<close> otherwise, which skips the
  rest of the stack. Every handler of this module answers or calls \<^verbatim>\<open>next(err)\<close>, so
  nothing of the stack runs after it.
\<close>

datatype event = Rejected schema | Invoked handler

fun run_stack :: "(schema \<Rightarrow> bool) \<Rightarrow> middleware list \<Rightarrow> event list" where
  "run_stack valid [] = []"
| "run_stack valid (validate s # ms) =
     (if valid s then run_stack valid ms else [Rejected s])"
| "run_stack valid (handle h # ms) = [Invoked h]"

definition dispatch ::
  "route list \<Rightarrow> (schema \<Rightarrow> bool) \<Rightarrow> http_method \<Rightarrow> string \<Rightarrow> event list" where
  "dispatch routes valid m p =
     (case filter (\<lambda>r. route_method r = m \<and> path r = p) routes of
        [] \<Rightarrow> []
      | r # rs \<Rightarrow> run_stack valid (stack r))"

section \<open>POST /session/password/reset\<close>

definition MODULE_NS_services :: string where
  "MODULE_NS_services = ''bedrock.services''"

datatype reply = Send nat | NextWith error

text \<open>
  \<^verbatim>\<open>async.until(test, fn, callback)\<close>: while the test fails, run \<^verbatim>\<open>fn\<close>; an error from
  \<^verbatim>\<open>fn\<close> ends the loop. Nothing bounds the number of rounds, so not returning is
  the value \<open>None\<close>.
\<close>

partial_function (option) until ::
  "('s \<Rightarrow> bool) \<Rightarrow> ('s \<Rightarrow> error option \<times> 's) \<Rightarrow> 's \<Rightarrow> (error option \<times> 's) option" where
  "until test fn s =
     (if test s then Some (None, s)
      else case fn s of
        (Some e, s') \<Rightarrow> Some (Some e, s')
      | (None, s') \<Rightarrow> until test fn s')"

text \<open>
  The variables of the retry loop: \<^verbatim>\<open>success\<close> (0, 1 or -1), what is left of
  \<^verbatim>\<open>identityIds\<close>, and the identity store. \<open>calls\<close> records each
  \<^verbatim>\<open>setIdentityPassword\<close> call made, with its outcome, in order.
\<close>

record 'db reset_state =
  success :: int
  identityIds :: "string list"
  db :: 'db
  calls :: "(string \<times> error option) list"

text \<open>
  \<^verbatim>\<open>setIdentityPassword(actor, identity, cb)\<close> gets the actor's id and the cloned body with
  its \<^verbatim>\<open>id\<close> set; it reports an error or none and may change the store.
\<close>

definition reset_step ::
  "('db \<Rightarrow> string \<Rightarrow> string \<times> 'b body_scheme \<Rightarrow> error option \<times> 'db) \<Rightarrow> 'b body_scheme
     \<Rightarrow> 'db reset_state \<Rightarrow> error option \<times> 'db reset_state" where
  "reset_step setIdentityPassword b st =
     (case identityIds st of
        [] \<Rightarrow> (None, st\<lparr>success := - 1\<rparr>)
      | next # rest \<Rightarrow>
          (case setIdentityPassword (db st) next (next, b) of
             (err, db') \<Rightarrow>
               (None, st\<lparr>success := (if err = None then 1 else success st),
                         identityIds := rest, db := db',
                         calls := calls st @ [(next, err)]\<rparr>)))"

definition reset_loop ::
  "('db \<Rightarrow> string \<Rightarrow> string \<times> 'b body_scheme \<Rightarrow> error option \<times> 'db) \<Rightarrow> 'b body_scheme
     \<Rightarrow> string list \<Rightarrow> 'db \<Rightarrow> (error option \<times> 'db reset_state) option" where
  "reset_loop setIdentityPassword b identityIds0 db0 =
     until (\<lambda>st. success st \<noteq> 0) (reset_step setIdentityPassword b)
       \<lparr>success = 0, identityIds = identityIds0, db = db0, calls = []\<rparr>"

definition password_reset_failed :: "string \<Rightarrow> error" where
  "password_reset_failed ident =
     BedrockError ''The password reset failed for the given identity.''
       (MODULE_NS_services @ ''.PasswordResetFailed'')
       [(''sysIdentifier'', DStr ident), (''httpStatusCode'', DNum 403),
        (''public'', DBool True)] None"

text \<open>
  The handler's answer, with the store and the calls it made. \<open>None\<close>: the handler
  never answers.
\<close>

definition postPasswordReset ::
  "('db \<Rightarrow> string \<Rightarrow> error + string list)
     \<Rightarrow> ('db \<Rightarrow> string \<Rightarrow> string \<times> 'b body_scheme \<Rightarrow> error option \<times> 'db)
     \<Rightarrow> 'db \<Rightarrow> ('b, 'a) request_scheme
     \<Rightarrow> (reply \<times> 'db \<times> (string \<times> error option) list) option" where
  "postPasswordReset resolveIdentityIdentifier setIdentityPassword db0 req =
     (case resolveIdentityIdentifier db0 (sysIdentifier (body req)) of
        Inl e \<Rightarrow> Some (NextWith e, db0, [])
      | Inr identityIds0 \<Rightarrow>
          (case reset_loop setIdentityPassword (body req) identityIds0 db0 of
             None \<Rightarrow> None
           | Some (err, st) \<Rightarrow>
               Some (if \<not> (success st = 1)
                     then NextWith (password_reset_failed (sysIdentifier (body req)))
                     else Send 204,
                     db st, calls st)))"

section \<open>POST /session/passcode\<close>

record db_record =
  record_identity :: identity

definition identity_not_found :: "string \<Rightarrow> error" where
  "identity_not_found ident =
     BedrockError ''The given email address is not registered.''
       (MODULE_NS_services @ ''.IdentityNotFound'')
       [(''sysIdentifier'', DStr ident), (''httpStatusCode'', DNum 404),
        (''public'', DBool True)] None"

definition passcode_usage :: "string option \<Rightarrow> string" where
  "passcode_usage q =
     (if q = Some ''verify'' then ''verify''
      else if q = Some ''reset'' then ''reset''
      else ''reset'')"

text \<open>
  The answer, and the \<^verbatim>\<open>sendIdentityPasscodes(identities, usage, cb)\<close> calls made.
  \<^verbatim>\<open>getIdentities\<close> receives the hashed ids of the \<^verbatim>\<open>$in\<close> query.
\<close>

definition postPasscode ::
  "(string \<Rightarrow> error + string list) \<Rightarrow> (string \<Rightarrow> string)
     \<Rightarrow> (string list \<Rightarrow> error + db_record list)
     \<Rightarrow> (identity list \<Rightarrow> string \<Rightarrow> error option)
     \<Rightarrow> ('b, 'a) request_scheme \<Rightarrow> reply \<times> (identity list \<times> string) list" where
  "postPasscode resolveIdentityIdentifier hash getIdentities sendIdentityPasscodes req =
     (case resolveIdentityIdentifier (sysIdentifier (body req)) of
        Inl e \<Rightarrow> (NextWith e, [])
      | Inr identityIds0 \<Rightarrow>
          if length identityIds0 = 0
          then (NextWith (identity_not_found (sysIdentifier (body req))), [])
          else
            (case getIdentities (map hash identityIds0) of
               Inl e \<Rightarrow> (NextWith e, [])
             | Inr records \<Rightarrow>
                 let identities = map record_identity records;
                     usage = passcode_usage (query_usage req)
                 in (case sendIdentityPasscodes identities usage of
                       Some e \<Rightarrow> (NextWith e, [(identities, usage)])
                     | None \<Rightarrow> (Send 204, [(identities, usage)]))))"

section \<open>The two login functions\<close>

record choice =
  choice_email :: string
  identities :: "string \<rightharpoonup> identity"

text \<open>
  \<^verbatim>\<open>async.forEach\<close> over the matches: each lookup stores its identity under its id; the
  first error ends it. Lookups are taken in the order of the list.
\<close>

fun forEach_getIdentity ::
  "(string \<Rightarrow> error + identity) \<Rightarrow> string list \<Rightarrow> (string \<rightharpoonup> identity)
     \<Rightarrow> error + (string \<rightharpoonup> identity)" where
  "forEach_getIdentity getIdentity [] acc = Inr acc"
| "forEach_getIdentity getIdentity (i # is) acc =
     (case getIdentity i of
        Inl e \<Rightarrow> Inl e
      | Inr ident \<Rightarrow> forEach_getIdentity getIdentity is (acc(i \<mapsto> ident)))"

text \<open>
  Where a result goes: to the caller's \<^verbatim>\<open>callback(err, user, choice)\<close>, to
  \<^verbatim>\<open>next(err)\<close>, or nowhere because an exception escaped.
\<close>

datatype login_outcome =
    ViaCallback "error option" userval "choice option"
  | ViaNext "error option"
  | LoginThrew error

definition invalid_login :: "string \<Rightarrow> error" where
  "invalid_login type =
     BedrockError
       (''The email address and password combination '' @ ''you entered is incorrect.'')
       type [(''public'', DBool True), (''httpStatusCode'', DNum 400)] None"

text \<open>\<^verbatim>\<open>api.login\<close> of \<^verbatim>\<open>lib/passport.js\<close>.\<close>

definition login ::
  "auth_outcome \<Rightarrow> (string \<Rightarrow> error + identity) \<Rightarrow> (userval \<Rightarrow> error option)
     \<Rightarrow> login_outcome" where
  "login strategy getIdentity logIn =
     (case strategy of
        AuthNext e \<Rightarrow> ViaNext e
      | AuthCallback err u info_arg \<Rightarrow>
          if \<not> truthy u then
            (case info_arg of
               None \<Rightarrow> LoginThrew (TypeError ''Cannot read property matches of undefined'')
             | Some i \<Rightarrow>
                 (case matches i of
                    Some ms \<Rightarrow>
                      (case forEach_getIdentity getIdentity ms Map.empty of
                         Inl e \<Rightarrow> ViaCallback (Some e) JUndefined None
                       | Inr ids \<Rightarrow>
                           ViaCallback None JFalse
                             (Some \<lparr>choice_email = email i, identities = ids\<rparr>))
                  | None \<Rightarrow>
                      ViaCallback (Some (invalid_login ''bedrock.services.InvalidLogin''))
                        JUndefined None))
          else
            (case err of
               Some e \<Rightarrow> ViaCallback (Some e) JUndefined None
             | None \<Rightarrow> ViaCallback (logIn u) u None))"

text \<open>\<^verbatim>\<open>_login\<close> of the route file.\<close>

definition private_login ::
  "auth_outcome \<Rightarrow> (string \<Rightarrow> error + identity) \<Rightarrow> (userval \<Rightarrow> error option)
     \<Rightarrow> login_outcome" where
  "private_login strategy getIdentity logIn =
     (case strategy of
        AuthNext e \<Rightarrow> ViaNext e
      | AuthCallback err u info_arg \<Rightarrow>
          if \<not> truthy u then
            (case info_arg of
               None \<Rightarrow> LoginThrew (TypeError ''Cannot read property matches of undefined'')
             | Some i \<Rightarrow>
                 (case matches i of
                    Some ms \<Rightarrow>
                      (case forEach_getIdentity getIdentity ms Map.empty of
                         Inl e \<Rightarrow> ViaNext (Some e)
                       | Inr ids \<Rightarrow>
                           ViaCallback None JFalse
                             (Some \<lparr>choice_email = email i, identities = ids\<rparr>))
                  | None \<Rightarrow>
                      ViaNext (Some (invalid_login (MODULE_NS_services @ ''.InvalidLogin'')))))
          else
            (case err of
               Some e \<Rightarrow> ViaNext (Some e)
             | None \<Rightarrow> ViaCallback (logIn u) u None))"

text \<open>What was delivered, whichever way it went.\<close>

fun delivered :: "login_outcome \<Rightarrow> (error option \<times> userval \<times> choice option) option" where
  "delivered (ViaCallback err u c) = Some (err, u, c)"
| "delivered (ViaNext err) = Some (err, JUndefined, None)"
| "delivered (LoginThrew e) = None"

section \<open>configure: the session middleware\<close>

text \<open>
  \<^verbatim>\<open>configure\<close> runs on the \<^verbatim>\<open>configure.static\<close> event, which the framework emits
  before \<^verbatim>\<open>configure.routes\<close>: \<^verbatim>\<open>passport.initialize()\<close> and \<^verbatim>\<open>passport.session()\<close> are
  in front of every route of \<^verbatim>\<open>addRoutes\<close>. What the module asks of its collaborators is
  recorded as a list of calls. \<^verbatim>\<open>getIdentity\<close> is recorded with its actor's id and the
  id looked up; \<^verbatim>\<open>createIdentityId\<close> and \<^verbatim>\<open>createIdentity\<close> without their arguments.
\<close>

datatype call =
    GetIdentity "string option" string
  | CreateIdentityId
  | CreateIdentity
  | ResolveIdentityIdentifier string
  | SetIdentityPassword string
  | GetIdentities "string list"
  | SendIdentityPasscodes "identity list" string
  | Authenticate string
  | LogIn userval

text \<open>What \<^verbatim>\<open>serializeUser\<close> stores in the session: \<^verbatim>\<open>{identity: user.identity.id}\<close>.\<close>

record serialized =
  ser_identity :: "string option"

definition serializeUser :: "user \<Rightarrow> error + serialized" where
  "serializeUser u =
     (case identity u of
        None \<Rightarrow> Inl (TypeError ''Cannot read property id of null'')
      | Some i \<Rightarrow> Inr \<lparr>ser_identity = Some (id_field i)\<rparr>)"

text \<open>
  \<^verbatim>\<open>deserializeUser\<close>: a null identity gives \<^verbatim>\<open>{identity: null}\<close> without a lookup;
  otherwise \<^verbatim>\<open>brIdentity.getIdentity(actor, data.identity, cb)\<close> with the actor
  \<^verbatim>\<open>{id: data.identity}\<close>.
\<close>

definition deserializeUser ::
  "(string option \<Rightarrow> string \<Rightarrow> error + identity) \<Rightarrow> serialized \<Rightarrow> call list \<times> (error + user)" where
  "deserializeUser getIdentity data =
     (case ser_identity data of
        None \<Rightarrow> ([], Inr \<lparr>identity = None\<rparr>)
      | Some i \<Rightarrow>
          ([GetIdentity (Some i) i],
           case getIdentity (Some i) i of
             Inl e \<Rightarrow> Inl e
           | Inr ident \<Rightarrow> Inr \<lparr>identity = Some ident\<rparr>))"

text \<open>A request as the session middleware sees it: with what the session stores, if anything.\<close>

record 'b session_request = "'b request" +
  session_user :: "serialized option"

text \<open>
  \<^verbatim>\<open>passport.session()\<close> is \<^verbatim>\<open>passport.authenticate('session')\<close>: the session strategy
  deserializes the stored user, if there is one, sets \<^verbatim>\<open>req.user\<close> and passes on; an
  error of the deserialization goes to \<^verbatim>\<open>next(err)\<close>.
\<close>

definition passport_session ::
  "(string option \<Rightarrow> string \<Rightarrow> error + identity) \<Rightarrow> ('b, 'a) session_request_scheme
     \<Rightarrow> call list \<times> (error + ('b, 'a) session_request_scheme)" where
  "passport_session getIdentity req =
     (case session_user req of
        None \<Rightarrow> ([Authenticate ''session''], Inr req)
      | Some data \<Rightarrow>
          (case deserializeUser getIdentity data of
             (cs, Inl e) \<Rightarrow> (Authenticate ''session'' # cs, Inl e)
           | (cs, Inr u) \<Rightarrow> (Authenticate ''session'' # cs, Inr (req\<lparr>user := JUser u\<rparr>))))"

section \<open>What the handlers ask of their collaborators\<close>

text \<open>
  \<^verbatim>\<open>_login\<close> starts the password strategy; with several matches \<^verbatim>\<open>async.forEach\<close> starts
  one lookup per match (actor \<^verbatim>\<open>null\<close>); with a user and no error it calls
  \<^verbatim>\<open>req.logIn\<close>.
\<close>

definition private_login_calls :: "auth_outcome \<Rightarrow> call list" where
  "private_login_calls strategy =
     Authenticate ''bedrock.password'' #
     (case strategy of
        AuthNext e \<Rightarrow> []
      | AuthCallback err u info_arg \<Rightarrow>
          if \<not> truthy u then
            (case info_arg of
               None \<Rightarrow> []
             | Some i \<Rightarrow>
                 (case matches i of
                    Some ms \<Rightarrow> map (GetIdentity None) ms
                  | None \<Rightarrow> []))
          else
            (case err of
               Some e \<Rightarrow> []
             | None \<Rightarrow> [LogIn u]))"

text \<open>
  \<^verbatim>\<open>POST /join\<close>: \<^verbatim>\<open>_createIdentity\<close> calls \<^verbatim>\<open>createIdentityId\<close> twice and then
  \<^verbatim>\<open>createIdentity\<close>; only when that gives a record does the handler go on to
  \<^verbatim>\<open>_login\<close>.
\<close>

definition postJoin_calls :: "error + db_record \<Rightarrow> auth_outcome \<Rightarrow> call list" where
  "postJoin_calls created strategy =
     [CreateIdentityId, CreateIdentityId, CreateIdentity] @
     (case created of
        Inl e \<Rightarrow> []
      | Inr r \<Rightarrow> private_login_calls strategy)"

definition postPasswordReset_calls ::
  "('db \<Rightarrow> string \<Rightarrow> error + string list)
     \<Rightarrow> ('db \<Rightarrow> string \<Rightarrow> string \<times> 'b body_scheme \<Rightarrow> error option \<times> 'db)
     \<Rightarrow> 'db \<Rightarrow> ('b, 'a) request_scheme \<Rightarrow> call list" where
  "postPasswordReset_calls resolveIdentityIdentifier setIdentityPassword db0 req =
     ResolveIdentityIdentifier (sysIdentifier (body req)) #
     (case postPasswordReset resolveIdentityIdentifier setIdentityPassword db0 req of
        None \<Rightarrow> []
      | Some (r, d, cs) \<Rightarrow> map (\<lambda>c. SetIdentityPassword (fst c)) cs)"

definition postPasscode_calls ::
  "(string \<Rightarrow> error + string list) \<Rightarrow> (string \<Rightarrow> string)
     \<Rightarrow> (string list \<Rightarrow> error + db_record list)
     \<Rightarrow> (identity list \<Rightarrow> string \<Rightarrow> error option)
     \<Rightarrow> ('b, 'a) request_scheme \<Rightarrow> call list" where
  "postPasscode_calls resolveIdentityIdentifier hash getIdentities sendIdentityPasscodes req =
     ResolveIdentityIdentifier (sysIdentifier (body req)) #
     (case resolveIdentityIdentifier (sysIdentifier (body req)) of
        Inl e \<Rightarrow> []
      | Inr identityIds0 \<Rightarrow>
          if length identityIds0 = 0 then []
          else
            GetIdentities (map hash identityIds0) #
            map (\<lambda>sent. SendIdentityPasscodes (fst sent) (snd sent))
              (snd (postPasscode resolveIdentityIdentifier hash getIdentities
                      sendIdentityPasscodes req)))"

text \<open>The collaborators of one request, and the schema validator's verdicts.\<close>

record ('db, 'b) collaborators =
  store_of :: 'db
  valid_of :: "schema \<Rightarrow> bool"
  getIdentity_of :: "string option \<Rightarrow> string \<Rightarrow> error + identity"
  password_strategy_of :: auth_outcome
  createIdentity_of :: "error + db_record"
  resolve_of :: "'db \<Rightarrow> string \<Rightarrow> error + string list"
  setIdentityPassword_of :: "'db \<Rightarrow> string \<Rightarrow> string \<times> 'b body_scheme \<Rightarrow> error option \<times> 'db"
  hash_of :: "string \<Rightarrow> string"
  getIdentities_of :: "string list \<Rightarrow> error + db_record list"
  sendIdentityPasscodes_of :: "identity list \<Rightarrow> string \<Rightarrow> error option"

text \<open>
  The other four handlers render a view, answer through the REST helper or destroy the
  session; they call neither the identity module nor a passport strategy.
\<close>

fun handler_calls ::
  "('db, 'b) collaborators \<Rightarrow> ('b, 'a) request_scheme \<Rightarrow> handler \<Rightarrow> call list" where
  "handler_calls env req PostJoin =
     postJoin_calls (createIdentity_of env) (password_strategy_of env)"
| "handler_calls env req PostLogin = private_login_calls (password_strategy_of env)"
| "handler_calls env req PostPasswordReset =
     postPasswordReset_calls (resolve_of env) (setIdentityPassword_of env) (store_of env) req"
| "handler_calls env req PostPasscode =
     postPasscode_calls (resolve_of env (store_of env)) (hash_of env) (getIdentities_of env)
       (sendIdentityPasscodes_of env) req"
| "handler_calls env req h = []"

text \<open>
  One request through the session middleware and then its route: the calls made, what
  the route's stack did, and an error that ended the request before the routes.
\<close>

datatype trace_item = Call call | Route event | Abort error

definition expand ::
  "('db, 'b) collaborators \<Rightarrow> ('b, 'a) request_scheme \<Rightarrow> event \<Rightarrow> trace_item list" where
  "expand env req ev =
     (case ev of
        Rejected s \<Rightarrow> [Route (Rejected s)]
      | Invoked h \<Rightarrow> Route (Invoked h) # map Call (handler_calls env req h))"

definition handle_request ::
  "('db, 'b) collaborators \<Rightarrow> route list \<Rightarrow> http_method \<Rightarrow> string
     \<Rightarrow> ('b, 'a) session_request_scheme \<Rightarrow> trace_item list" where
  "handle_request env routes m p req =
     (case passport_session (getIdentity_of env) req of
        (cs, Inl e) \<Rightarrow> map Call cs @ [Abort e]
      | (cs, Inr req') \<Rightarrow>
          map Call cs @ concat (map (expand env req') (dispatch routes (valid_of env) m p)))"

section \<open>Sample requests and collaborators\<close>

text \<open>Concrete values at which the theorems below are instantiated.\<close>

definition alice :: user where
  "alice = \<lparr>identity = Some \<lparr>id_field = ''https://example.com/i/alice'', label = ''Alice''\<rparr>\<rparr>"

definition alice_signed :: user where
  "alice_signed =
     \<lparr>identity = Some \<lparr>id_field = ''https://example.com/i/alice'', label = ''Alice (key)''\<rparr>\<rparr>"

definition bob :: user where
  "bob = \<lparr>identity = Some \<lparr>id_field = ''https://example.com/i/bob'', label = ''Bob''\<rparr>\<rparr>"

definition sample_request ::
  "userval \<Rightarrow> string \<Rightarrow> string option \<Rightarrow> (unit, unit) request_scheme" where
  "sample_request u ident usage =
     \<lparr>user = u, body = \<lparr>sysIdentifier = ident\<rparr>, query_usage = usage\<rparr>"

definition reject_all :: "schema \<Rightarrow> bool" where
  "reject_all s = False"

definition sample_resolve :: "string \<Rightarrow> error + string list" where
  "sample_resolve ident =
     (if ident = ''both@example.com'' then Inr [''a'', ''b'', ''c'']
      else if ident = ''locked@example.com'' then Inr [''a'', ''c'']
      else if ident = ''nobody@example.com'' then Inr []
      else Inl (Error ''lookup failed''))"

definition sample_resolve_db :: "string list \<Rightarrow> string \<Rightarrow> error + string list" where
  "sample_resolve_db d ident = sample_resolve ident"

text \<open>A store that keeps the ids whose password was set; only \<open>''b''\<close> accepts.\<close>

definition sample_setIdentityPassword ::
  "string list \<Rightarrow> string \<Rightarrow> string \<times> body \<Rightarrow> error option \<times> string list" where
  "sample_setIdentityPassword d actor ident =
     (if actor = ''b'' then (None, d @ [fst ident])
      else (Some (Error ''invalid passcode''), d))"

definition sample_hash :: "string \<Rightarrow> string" where
  "sample_hash i = ''#'' @ i"

definition sample_getIdentities :: "string list \<Rightarrow> error + db_record list" where
  "sample_getIdentities hashes =
     Inr (map (\<lambda>h. \<lparr>record_identity = \<lparr>id_field = drop 1 h, label = ''found''\<rparr>\<rparr>) hashes)"

definition failing_getIdentities :: "string list \<Rightarrow> error + db_record list" where
  "failing_getIdentities hashes = Inl (Error ''database unavailable'')"

definition sample_sendIdentityPasscodes :: "identity list \<Rightarrow> string \<Rightarrow> error option" where
  "sample_sendIdentityPasscodes idents usage = None"

definition sample_getIdentity :: "string \<Rightarrow> error + identity" where
  "sample_getIdentity i = Inr \<lparr>id_field = i, label = ''found''\<rparr>"

definition sample_logIn :: "userval \<Rightarrow> error option" where
  "sample_logIn u = None"

definition sample_getIdentity_as :: "string option \<Rightarrow> string \<Rightarrow> error + identity" where
  "sample_getIdentity_as actor i = sample_getIdentity i"

definition sample_env :: "(string list, unit) collaborators" where
  "sample_env =
     \<lparr>store_of = [], valid_of = reject_all, getIdentity_of = sample_getIdentity_as,
      password_strategy_of = AuthCallback None (JUser alice) None,
      createIdentity_of = Inl (Error ''duplicate''),
      resolve_of = sample_resolve_db, setIdentityPassword_of = sample_setIdentityPassword,
      hash_of = sample_hash, getIdentities_of = sample_getIdentities,
      sendIdentityPasscodes_of = sample_sendIdentityPasscodes\<rparr>"

definition session_request :: "string option \<Rightarrow> (unit, unit) session_request_scheme" where
  "session_request stored =
     \<lparr>user = JUndefined, body = \<lparr>sysIdentifier = ''''\<rparr>, query_usage = None,
      session_user = (case stored of None \<Rightarrow> None | Some i \<Rightarrow> Some \<lparr>ser_identity = Some i\<rparr>)\<rparr>"

section \<open>Properties of the authentication checks\<close>

lemma js_or_false: "js_or (js_or s h) JFalse =
    (if truthy s then s else if truthy h then h else JFalse)"
  by (simp add: js_or_def)

lemma final_async_auto:
  "final (async_auto ord (TaskOk s) h) =
     (case h of
        TaskOk hv \<Rightarrow>
          (case auth_task s hv of
             TaskOk v \<Rightarrow> Some (FinalOk v)
           | TaskErr e \<Rightarrow> Some (FinalErr e)
           | TaskThrew e \<Rightarrow> Some (Uncaught e))
      | TaskErr e \<Rightarrow> Some (FinalErr e)
      | TaskThrew e \<Rightarrow> Some (Uncaught e))"
  by (cases ord; cases h)
     (simp_all add: async_auto_def task_done_def run_auth_def fire_def auto_init_def
        split: task_result.splits)

lemma checkAuthentication_eq:
  "checkAuthentication ord enabled strategy req =
     (case httpSignature_task enabled strategy of
        TaskOk hv \<Rightarrow>
          (case auth_task (if truthy (user req) then user req else JFalse) hv of
             TaskOk v \<Rightarrow> Callback None v
           | TaskErr e \<Rightarrow> Callback (Some (authentication_error e)) JUndefined
           | TaskThrew e \<Rightarrow> Threw e)
      | TaskErr e \<Rightarrow> Callback (Some (authentication_error e)) JUndefined
      | TaskThrew e \<Rightarrow> Threw e)"
  by (simp add: checkAuthentication_def session_task_def isAuthenticated_def final_async_auto
      split: task_result.splits)


subsection \<open>Mismatching identities are refused\<close>

text \<open>
  Claim C1. When the session check and the HTTP-signature check each yield a user and
  the two users' identity ids differ, \<^verbatim>\<open>checkAuthentication\<close> calls back with the
  \<^verbatim>\<open>BedrockError\<close> \<^verbatim>\<open>'Request authentication error.'\<close> of type
  \<^verbatim>\<open>bedrock.website.PermissionDenied\<close> and status 400, whose cause is the mismatch
  error, whatever the order of the two checks; it never calls back with an identity.
\<close>

theorem checkAuthentication_mismatch:
  assumes "session_task req = TaskOk (JUser su)"
    and "httpSignature_task enabled strategy = TaskOk (JUser hu)"
    and "identity su = Some si" and "identity hu = Some hi"
    and "id_field si \<noteq> id_field hi"
  shows "checkAuthentication ord enabled strategy req =
           Callback (Some (BedrockError ''Request authentication error.''
               ''bedrock.website.PermissionDenied''
               [(''public'', DBool True), (''httpStatusCode'', DNum 400)]
               (Some (BedrockError ''Request authentication mismatch.''
                  ''bedrock.website.PermissionDenied''
                  [(''public'', DBool True), (''httpStatusCode'', DNum 400)] None))))
             JUndefined
         \<and> (\<forall>v. checkAuthentication ord enabled strategy req \<noteq> Callback None v)"
proof -
  have "auth_task (JUser su) (JUser hu) = TaskErr mismatch_error"
    using assms(3-5) by (simp add: auth_task_def)
  moreover have "(if truthy (user req) then user req else JFalse) = JUser su"
    using assms(1) by (simp add: session_task_def isAuthenticated_def)
  ultimately show ?thesis
    using assms(2)
    by (simp add: checkAuthentication_eq authentication_error_def mismatch_error_def
        MODULE_NS_website_def)
qed

theorem checkAuthentication_mismatch_witness:
  "session_task (sample_request (JUser alice) '''' None) = TaskOk (JUser alice)
   \<and> httpSignature_task True (AuthCallback None (JUser bob) None) = TaskOk (JUser bob)
   \<and> checkAuthentication HttpSignatureFirst True (AuthCallback None (JUser bob) None)
        (sample_request (JUser alice) '''' None) =
      Callback (Some (BedrockError ''Request authentication error.''
               ''bedrock.website.PermissionDenied''
               [(''public'', DBool True), (''httpStatusCode'', DNum 400)]
               (Some (BedrockError ''Request authentication mismatch.''
                  ''bedrock.website.PermissionDenied''
                  [(''public'', DBool True), (''httpStatusCode'', DNum 400)] None))))
             JUndefined"
  using checkAuthentication_mismatch [of "sample_request (JUser alice) '''' None" alice
      True "AuthCallback None (JUser bob) None" bob
      "\<lparr>id_field = ''https://example.com/i/alice'', label = ''Alice''\<rparr>"
      "\<lparr>id_field = ''https://example.com/i/bob'', label = ''Bob''\<rparr>" HttpSignatureFirst]
  by (simp add: session_task_def isAuthenticated_def httpSignature_task_def
      sample_request_def alice_def bob_def)

subsection \<open>Which user is passed on\<close>

text \<open>
  Claim C2, as stated, at a request whose session is authenticated while the signature
  strategy reports an error: the two checks do not disagree on an identity, yet the
  callback receives the 400 error and not the session user.
\<close>

theorem checkAuthentication_signature_error_counterexample:
  "session_task (sample_request (JUser alice) '''' None) = TaskOk (JUser alice)
   \<and> httpSignature_task True (AuthCallback (Some (Error ''key lookup failed'')) JUndefined None)
       = TaskErr (Error ''key lookup failed'')
   \<and> checkAuthentication SessionFirst True
        (AuthCallback (Some (Error ''key lookup failed'')) JUndefined None)
        (sample_request (JUser alice) '''' None)
       = Callback (Some (BedrockError ''Request authentication error.''
               ''bedrock.website.PermissionDenied''
               [(''public'', DBool True), (''httpStatusCode'', DNum 400)]
               (Some (Error ''key lookup failed'')))) JUndefined
   \<and> checkAuthentication SessionFirst True
        (AuthCallback (Some (Error ''key lookup failed'')) JUndefined None)
        (sample_request (JUser alice) '''' None)
       \<noteq> Callback None (JUser alice)"
  by (simp add: checkAuthentication_eq session_task_def isAuthenticated_def
      httpSignature_task_def sample_request_def authentication_error_def
      MODULE_NS_website_def)

text \<open>
  Claim C2, amended. When the HTTP-signature check completes without error and the two
  checks do not disagree (they are not both users, or both carry an identity with the
  same id), \<^verbatim>\<open>checkAuthentication\<close> calls back without error and with the session user
  if there is one, otherwise with the signature user if there is one, otherwise with
  exactly \<^verbatim>\<open>false\<close>.
\<close>

theorem checkAuthentication_agreement:
  assumes "session_task req = TaskOk s"
    and "httpSignature_task enabled strategy = TaskOk h"
    and "\<not> (truthy s \<and> truthy h) \<or> (\<exists>i. identity_id s = Inr i \<and> identity_id h = Inr i)"
  shows "checkAuthentication ord enabled strategy req =
           Callback None (if truthy s then s else if truthy h then h else JFalse)"
proof -
  have s: "(if truthy (user req) then user req else JFalse) = s"
    using assms(1) by (simp add: session_task_def isAuthenticated_def)
  have "auth_task s h = TaskOk (js_or (js_or s h) JFalse)"
    using assms(3) by (auto simp: auth_task_def)
  then show ?thesis
    using assms(2) s by (simp add: checkAuthentication_eq js_or_false)
qed

theorem checkAuthentication_agreement_witness:
  "checkAuthentication SessionFirst True (AuthCallback None (JUser alice_signed) None)
     (sample_request (JUser alice) '''' None) = Callback None (JUser alice)
   \<and> JUser alice \<noteq> JUser alice_signed
   \<and> checkAuthentication SessionFirst True (AuthCallback None (JUser bob) None)
     (sample_request JNull '''' None) = Callback None (JUser bob)
   \<and> checkAuthentication SessionFirst True (AuthCallback None JNull None)
     (sample_request JUndefined '''' None) = Callback None JFalse"
  using checkAuthentication_agreement [of "sample_request (JUser alice) '''' None"
      "JUser alice" True "AuthCallback None (JUser alice_signed) None" "JUser alice_signed"
      SessionFirst]
    checkAuthentication_agreement [of "sample_request JNull '''' None"
      JFalse True "AuthCallback None (JUser bob) None" "JUser bob" SessionFirst]
    checkAuthentication_agreement [of "sample_request JUndefined '''' None"
      JFalse True "AuthCallback None JNull None" JNull SessionFirst]
  by (simp add: session_task_def isAuthenticated_def httpSignature_task_def
      sample_request_def alice_def alice_signed_def bob_def)

subsection \<open>The outcome is a function of the two check results\<close>

text \<open>
  Claim C8. Two runs of \<^verbatim>\<open>checkAuthentication\<close> in which the session check produces
  the same result and the HTTP-signature check produces the same result call back with
  the same value, whichever of the two parallel checks completes first in either run.
\<close>

theorem checkAuthentication_deterministic:
  assumes "session_task req1 = session_task req2"
    and "httpSignature_task enabled1 strategy1 = httpSignature_task enabled2 strategy2"
  shows "checkAuthentication ord1 enabled1 strategy1 req1 =
         checkAuthentication ord2 enabled2 strategy2 req2"
proof -
  obtain s where s1: "session_task req1 = TaskOk s"
    by (simp add: session_task_def)
  with assms(1) have s2: "session_task req2 = TaskOk s"
    by simp
  show ?thesis
    unfolding checkAuthentication_def s1 s2 assms(2) final_async_auto ..
qed

theorem checkAuthentication_deterministic_witness:
  "session_task (sample_request (JUser alice) ''x'' None) =
     session_task (sample_request (JUser alice) ''y'' (Some ''verify''))
   \<and> httpSignature_task True (AuthCallback None JFalse None) =
       httpSignature_task False (AuthCallback None (JUser bob) None)
   \<and> checkAuthentication SessionFirst True (AuthCallback None JFalse None)
        (sample_request (JUser alice) ''x'' None) =
      checkAuthentication HttpSignatureFirst False (AuthCallback None (JUser bob) None)
        (sample_request (JUser alice) ''y'' (Some ''verify''))"
  using checkAuthentication_deterministic [of "sample_request (JUser alice) ''x'' None"
      "sample_request (JUser alice) ''y'' (Some ''verify'')"
      True "AuthCallback None JFalse None" False "AuthCallback None (JUser bob) None"
      SessionFirst HttpSignatureFirst]
  by (simp add: session_task_def isAuthenticated_def httpSignature_task_def
      sample_request_def)

subsection \<open>ensureAuthenticated\<close>



subsection \<open>optionallyAuthenticated leaves the request alone\<close>

text \<open>
  Claim C10. If \<^verbatim>\<open>checkAuthentication\<close> calls back with \<^verbatim>\<open>false\<close> and no error,
  \<^verbatim>\<open>optionallyAuthenticated\<close> leaves the request, and so \<^verbatim>\<open>req.user\<close>, exactly as it
  was and calls \<^verbatim>\<open>next()\<close> without error. The request changes only when
  \<^verbatim>\<open>checkAuthentication\<close> yields an identity, and then only in \<^verbatim>\<open>req.user\<close>.
\<close>

theorem optionallyAuthenticated_frame:
  "(checkAuthentication ord enabled strategy req = Callback None JFalse \<longrightarrow>
      optionallyAuthenticated ord enabled strategy req = (req, Next None))
   \<and> (fst (optionallyAuthenticated ord enabled strategy req) \<noteq> req \<longrightarrow>
       (\<exists>i. truthy i \<and> checkAuthentication ord enabled strategy req = Callback None i
          \<and> optionallyAuthenticated ord enabled strategy req = (req\<lparr>user := i\<rparr>, Next None)))"
  by (auto simp: optionallyAuthenticated_def split: check_result.splits option.splits if_splits)

theorem optionallyAuthenticated_frame_witness:
  "checkAuthentication SessionFirst False (AuthNext None)
      (sample_request JNull ''a'' (Some ''reset'')) = Callback None JFalse
   \<and> optionallyAuthenticated SessionFirst False (AuthNext None)
      (sample_request JNull ''a'' (Some ''reset'')) =
     (sample_request JNull ''a'' (Some ''reset''), Next None)
   \<and> optionallyAuthenticated SessionFirst True (AuthCallback None (JUser bob) None)
      (sample_request JNull ''a'' (Some ''reset'')) =
     (sample_request (JUser bob) ''a'' (Some ''reset''), Next None)"
  using optionallyAuthenticated_frame [of SessionFirst False "AuthNext None"
      "sample_request JNull ''a'' (Some ''reset'')"]
    optionallyAuthenticated_frame [of SessionFirst True "AuthCallback None (JUser bob) None"
      "sample_request JNull ''a'' (Some ''reset'')"]
  by (simp add: optionallyAuthenticated_def checkAuthentication_eq
      httpSignature_task_def auth_task_def js_or_def sample_request_def)

section \<open>Properties of the routes\<close>

lemma post_routes:
  "filter (\<lambda>r. route_method r = POST) (addRoutes enableCreateIdentity) =
     (if enableCreateIdentity then
        [\<lparr>route_method = POST, path = ''/join'',
          stack = [validate (BodySchema ''services.session.postJoin''), handle PostJoin]\<rparr>]
      else []) @
     [\<lparr>route_method = POST, path = ''/session/login'',
       stack = [validate (BodySchema ''services.session.postLogin''), handle PostLogin]\<rparr>,
      \<lparr>route_method = POST, path = ''/session/password/reset'',
       stack = [validate (BodySchema ''services.session.postPasswordReset''),
                handle PostPasswordReset]\<rparr>,
      \<lparr>route_method = POST, path = ''/session/passcode'',
       stack = [validate (BodySchema ''services.session.postPasscode''), handle PostPasscode]\<rparr>]"
  by (simp add: addRoutes_def)

lemma dispatch_join:
  "dispatch (addRoutes True) valid POST ''/join'' =
     run_stack valid [validate (BodySchema ''services.session.postJoin''), handle PostJoin]"
  by (simp add: addRoutes_def dispatch_def)

lemma dispatch_login:
  "dispatch (addRoutes e) valid POST ''/session/login'' =
     run_stack valid [validate (BodySchema ''services.session.postLogin''), handle PostLogin]"
  by (simp add: addRoutes_def dispatch_def)

lemma dispatch_reset:
  "dispatch (addRoutes e) valid POST ''/session/password/reset'' =
     run_stack valid [validate (BodySchema ''services.session.postPasswordReset''),
       handle PostPasswordReset]"
  by (simp add: addRoutes_def dispatch_def)

lemma dispatch_passcode:
  "dispatch (addRoutes e) valid POST ''/session/passcode'' =
     run_stack valid [validate (BodySchema ''services.session.postPasscode''),
       handle PostPasscode]"
  by (simp add: addRoutes_def dispatch_def)

lemma mem4: "r \<in> set ((if e then [a] else []) @ [b, c, d]) \<Longrightarrow>
   (e \<and> r = a) \<or> r = b \<or> r = c \<or> r = d"
  by (auto split: if_splits)

text \<open>
  The retry loop from any state with \<^verbatim>\<open>success === 0\<close>: it returns, the calls it adds
  are on a prefix of the remaining ids, each logged outcome is what
  \<^verbatim>\<open>setIdentityPassword\<close> reported, and it ends on the first call without error or
  with every id tried.
\<close>

lemma reset_until:
  fixes st :: "'db reset_state"
  assumes "success st = 0"
  shows "\<exists>st' new. until (\<lambda>st. success st \<noteq> 0) (reset_step f b) st = Some (None, st')
           \<and> calls st' = calls st @ new
           \<and> map fst new @ identityIds st' = identityIds st
           \<and> (\<forall>c\<in>set new. \<exists>d. snd c = fst (f d (fst c) (fst c, b)))
           \<and> ((success st' = 1 \<and> new \<noteq> [] \<and> snd (last new) = None
                  \<and> (\<forall>c\<in>set (butlast new). snd c \<noteq> None))
                \<or> (success st' = - 1 \<and> identityIds st' = []
                  \<and> (\<forall>c\<in>set new. snd c \<noteq> None)))"
  using assms
proof (induction "identityIds st" arbitrary: st)
  case Nil
  let ?st = "st\<lparr>success := - 1\<rparr>"
  have step: "reset_step f b st = (None, ?st)"
    using Nil(1) by (simp add: reset_step_def)
  have "until (\<lambda>st. success st \<noteq> 0) (reset_step f b) st = Some (None, ?st)"
    using Nil(2) step
    by (subst until.simps, simp, subst until.simps, simp)
  then show ?case
    using Nil(1) [symmetric] by simp
next
  case (Cons i rest)
  obtain err d' where call: "f (db st) i (i, b) = (err, d')"
    by (cases "f (db st) i (i, b)")
  let ?st = "st\<lparr>success := (if err = None then 1 else success st),
                 identityIds := rest, db := d', calls := calls st @ [(i, err)]\<rparr>"
  have step: "reset_step f b st = (None, ?st)"
    using Cons(2) [symmetric] call by (simp add: reset_step_def)
  have unfold: "until (\<lambda>st. success st \<noteq> 0) (reset_step f b) st =
                until (\<lambda>st. success st \<noteq> 0) (reset_step f b) ?st"
    using Cons(3) step by (subst until.simps) simp
  have logged: "\<exists>d. err = fst (f d i (i, b))"
    using call by (intro exI [of _ "db st"]) simp
  show ?case
  proof (cases err)
    case None
    have "until (\<lambda>st. success st \<noteq> 0) (reset_step f b) ?st = Some (None, ?st)"
      using None by (subst until.simps) simp
    with unfold None logged Cons(2) [symmetric] show ?thesis
      by (intro exI [of _ ?st] exI [of _ "[(i, err)]"]) auto
  next
    case (Some e)
    have "rest = identityIds ?st" "success ?st = 0"
      using Some Cons(3) by simp_all
    from Cons(1) [OF this] obtain st' new where
      run: "until (\<lambda>st. success st \<noteq> 0) (reset_step f b) ?st = Some (None, st')"
      and log: "calls st' = calls ?st @ new"
      and ids: "map fst new @ identityIds st' = identityIds ?st"
      and orc: "\<forall>c\<in>set new. \<exists>d. snd c = fst (f d (fst c) (fst c, b))"
      and fin: "(success st' = 1 \<and> new \<noteq> [] \<and> snd (last new) = None
                  \<and> (\<forall>c\<in>set (butlast new). snd c \<noteq> None))
                \<or> (success st' = - 1 \<and> identityIds st' = []
                  \<and> (\<forall>c\<in>set new. snd c \<noteq> None))"
      by blast
    have "calls st' = calls st @ (i, err) # new"
      using log by simp
    moreover have "map fst ((i, err) # new) @ identityIds st' = identityIds st"
      using ids Cons(2) [symmetric] by simp
    moreover have "\<forall>c\<in>set ((i, err) # new). \<exists>d. snd c = fst (f d (fst c) (fst c, b))"
      using orc logged by auto
    moreover have "(success st' = 1 \<and> (i, err) # new \<noteq> [] \<and> snd (last ((i, err) # new)) = None
                  \<and> (\<forall>c\<in>set (butlast ((i, err) # new)). snd c \<noteq> None))
                \<or> (success st' = - 1 \<and> identityIds st' = []
                  \<and> (\<forall>c\<in>set ((i, err) # new). snd c \<noteq> None))"
      using fin Some by auto
    ultimately show ?thesis
      using unfold run by (intro exI [of _ st'] exI [of _ "(i, err) # new"]) simp
  qed
qed

lemma until_if:
  "until test fn s =
     (if test s then Some (None, s)
      else if fst (fn s) = None then until test fn (snd (fn s))
      else Some (fn s))"
  by (subst until.simps) (auto split: prod.splits option.splits)

lemma passport_session_calls:
  "fst (passport_session g req) =
     Authenticate ''session'' #
     (case session_user req of
        None \<Rightarrow> []
      | Some data \<Rightarrow> (case ser_identity data of None \<Rightarrow> [] | Some i \<Rightarrow> [GetIdentity (Some i) i]))"
  by (simp add: passport_session_def deserializeUser_def
      split: option.splits sum.splits prod.splits)

lemma handle_request_rejected:
  assumes "dispatch routes (valid_of env) m p = [Rejected s]"
  shows "\<exists>final. handle_request env routes m p req =
           map Call (fst (passport_session (getIdentity_of env) req)) @ [final]
         \<and> (final = Route (Rejected s) \<or> (\<exists>e. final = Abort e))"
  using assms
  by (cases "passport_session (getIdentity_of env) req")
     (auto simp: handle_request_def expand_def split: sum.splits)

lemma handle_request_invoked:
  assumes "dispatch routes (valid_of env) m p = [Invoked h]"
    and "passport_session (getIdentity_of env) req = (cs, Inr req')"
  shows "handle_request env routes m p req =
           map Call cs @ Route (Invoked h) # map Call (handler_calls env req' h)"
  using assms by (simp add: handle_request_def expand_def)

lemma validated_route:
  assumes "dispatch routes (valid_of env) POST p =
             run_stack (valid_of env) [validate (BodySchema s), handle h]"
  shows "(\<not> valid_of env (BodySchema s) \<longrightarrow>
            (\<exists>final. handle_request env routes POST p req =
                map Call (Authenticate ''session'' #
                  (case session_user req of
                     None \<Rightarrow> []
                   | Some data \<Rightarrow>
                       (case ser_identity data of
                          None \<Rightarrow> []
                        | Some i \<Rightarrow> [GetIdentity (Some i) i]))) @ [final]
              \<and> (final = Route (Rejected (BodySchema s)) \<or> (\<exists>e. final = Abort e))))
         \<and> (valid_of env (BodySchema s) \<longrightarrow>
            (\<forall>cs req'. passport_session (getIdentity_of env) req = (cs, Inr req') \<longrightarrow>
               handle_request env routes POST p req =
                 map Call cs @ Route (Invoked h) # map Call (handler_calls env req' h)))"
proof (cases "valid_of env (BodySchema s)")
  case True
  with assms have "dispatch routes (valid_of env) POST p = [Invoked h]"
    by simp
  with True show ?thesis
    by (simp add: handle_request_invoked)
next
  case False
  with assms have "dispatch routes (valid_of env) POST p = [Rejected (BodySchema s)]"
    by simp
  from handle_request_rejected [OF this, of req] False show ?thesis
    by (simp only: passport_session_calls) simp
qed

lemma delegating_handlers:
  "handler_calls env req PostJoin \<noteq> [] \<and> hd (handler_calls env req PostJoin) = CreateIdentityId"
  "handler_calls env req PostLogin \<noteq> []
     \<and> hd (handler_calls env req PostLogin) = Authenticate ''bedrock.password''"
  "handler_calls env req PostPasswordReset \<noteq> []
     \<and> hd (handler_calls env req PostPasswordReset) =
         ResolveIdentityIdentifier (sysIdentifier (body req))"
  "handler_calls env req PostPasscode \<noteq> []
     \<and> hd (handler_calls env req PostPasscode) =
         ResolveIdentityIdentifier (sysIdentifier (body req))"
  by (simp_all add: postJoin_calls_def private_login_calls_def postPasswordReset_calls_def
      postPasscode_calls_def)

subsection \<open>Validation comes first\<close>

text \<open>
  Claim C3, as stated, at a \<^verbatim>\<open>POST /session/login\<close> whose body fails the validation
  and whose session stores an identity: before the route is reached the session
  middleware that \<^verbatim>\<open>configure\<close> installs runs the session strategy, and
  \<^verbatim>\<open>deserializeUser\<close> calls \<^verbatim>\<open>brIdentity.getIdentity\<close>. The identity module and a
  passport strategy are invoked although the validation fails.
\<close>

theorem session_lookup_before_validation_counterexample:
  "\<not> valid_of sample_env (BodySchema ''services.session.postLogin'')
   \<and> handle_request sample_env (addRoutes False) POST ''/session/login''
        (session_request (Some ''https://example.com/i/alice'')) =
      [Call (Authenticate ''session''),
       Call (GetIdentity (Some ''https://example.com/i/alice'') ''https://example.com/i/alice''),
       Route (Rejected (BodySchema ''services.session.postLogin''))]"
  by (simp add: handle_request_def passport_session_def deserializeUser_def expand_def
      dispatch_login sample_env_def reject_all_def session_request_def
      sample_getIdentity_as_def sample_getIdentity_def)

text \<open>
  Claim C3, amended. Every POST route that \<^verbatim>\<open>addRoutes\<close> registers is one of \<^verbatim>\<open>/join\<close>,
  \<^verbatim>\<open>/session/login\<close>, \<^verbatim>\<open>/session/password/reset\<close> and \<^verbatim>\<open>/session/passcode\<close> (the first
  only when identity creation is enabled), and its stack is the schema validation
  followed by a handler whose first act, once started, is a call to the identity module
  (\<^verbatim>\<open>createIdentityId\<close>, \<^verbatim>\<open>resolveIdentityIdentifier\<close>) or to the password
  strategy. For a request that fails the validation the handler is not started and none
  of its calls is made: the request ends with the rejection, or with an error
  of the session middleware, and the only calls made are those of the session middleware
  in front of the routes, namely the session strategy and, when the session stores an
  identity id, \<^verbatim>\<open>deserializeUser\<close>'s \<^verbatim>\<open>brIdentity.getIdentity\<close>. For a request that
  passes the validation the handler's calls come after the session middleware's.
\<close>

theorem post_routes_validate_first:
  assumes "r \<in> set (addRoutes enableCreateIdentity)" and "route_method r = POST"
  shows "(\<exists>s h. stack r = [validate (BodySchema s), handle h]
           \<and> handler_calls env0 req0 h \<noteq> []
           \<and> hd (handler_calls env0 req0 h) \<in>
               {CreateIdentityId, Authenticate ''bedrock.password'',
                ResolveIdentityIdentifier (sysIdentifier (body req0))}
           \<and> path r \<in> {''/join'', ''/session/login'', ''/session/password/reset'',
                        ''/session/passcode''}
           \<and> (\<not> valid_of env (BodySchema s) \<longrightarrow>
                (\<exists>final. handle_request env (addRoutes enableCreateIdentity) POST (path r) req =
                    map Call (Authenticate ''session'' #
                      (case session_user req of
                         None \<Rightarrow> []
                       | Some data \<Rightarrow>
                           (case ser_identity data of
                              None \<Rightarrow> []
                            | Some i \<Rightarrow> [GetIdentity (Some i) i]))) @ [final]
                  \<and> (final = Route (Rejected (BodySchema s)) \<or> (\<exists>e. final = Abort e))))
           \<and> (valid_of env (BodySchema s) \<longrightarrow>
                (\<forall>cs req'. passport_session (getIdentity_of env) req = (cs, Inr req') \<longrightarrow>
                   handle_request env (addRoutes enableCreateIdentity) POST (path r) req =
                     map Call cs @ Route (Invoked h) # map Call (handler_calls env req' h))))
         \<and> map path (filter (\<lambda>r. route_method r = POST) (addRoutes enableCreateIdentity)) =
           (if enableCreateIdentity then [''/join''] else []) @
           [''/session/login'', ''/session/password/reset'', ''/session/passcode'']"
proof -
  have paths:
    "map path (filter (\<lambda>r. route_method r = POST) (addRoutes enableCreateIdentity)) =
       (if enableCreateIdentity then [''/join''] else []) @
       [''/session/login'', ''/session/password/reset'', ''/session/passcode'']"
    unfolding post_routes by simp
  from assms have "r \<in> set (filter (\<lambda>r. route_method r = POST) (addRoutes enableCreateIdentity))"
    by simp
  then have "(enableCreateIdentity \<and> r = \<lparr>route_method = POST, path = ''/join'',
          stack = [validate (BodySchema ''services.session.postJoin''), handle PostJoin]\<rparr>)
    \<or> r = \<lparr>route_method = POST, path = ''/session/login'',
       stack = [validate (BodySchema ''services.session.postLogin''), handle PostLogin]\<rparr>
    \<or> r = \<lparr>route_method = POST, path = ''/session/password/reset'',
       stack = [validate (BodySchema ''services.session.postPasswordReset''),
                handle PostPasswordReset]\<rparr>
    \<or> r = \<lparr>route_method = POST, path = ''/session/passcode'',
       stack = [validate (BodySchema ''services.session.postPasscode''), handle PostPasscode]\<rparr>"
    unfolding post_routes by (rule mem4)
  then have "\<exists>s h. stack r = [validate (BodySchema s), handle h]
           \<and> handler_calls env0 req0 h \<noteq> []
           \<and> hd (handler_calls env0 req0 h) \<in>
               {CreateIdentityId, Authenticate ''bedrock.password'',
                ResolveIdentityIdentifier (sysIdentifier (body req0))}
           \<and> path r \<in> {''/join'', ''/session/login'', ''/session/password/reset'',
                        ''/session/passcode''}
           \<and> (\<not> valid_of env (BodySchema s) \<longrightarrow>
                (\<exists>final. handle_request env (addRoutes enableCreateIdentity) POST (path r) req =
                    map Call (Authenticate ''session'' #
                      (case session_user req of
                         None \<Rightarrow> []
                       | Some data \<Rightarrow>
                           (case ser_identity data of
                              None \<Rightarrow> []
                            | Some i \<Rightarrow> [GetIdentity (Some i) i]))) @ [final]
                  \<and> (final = Route (Rejected (BodySchema s)) \<or> (\<exists>e. final = Abort e))))
           \<and> (valid_of env (BodySchema s) \<longrightarrow>
                (\<forall>cs req'. passport_session (getIdentity_of env) req = (cs, Inr req') \<longrightarrow>
                   handle_request env (addRoutes enableCreateIdentity) POST (path r) req =
                     map Call cs @ Route (Invoked h) # map Call (handler_calls env req' h)))"
    (is ?validated)
  proof (elim disjE conjE)
    assume on: "enableCreateIdentity" and r: "r = \<lparr>route_method = POST, path = ''/join'',
          stack = [validate (BodySchema ''services.session.postJoin''), handle PostJoin]\<rparr>"
    have "dispatch (addRoutes enableCreateIdentity) (valid_of env) POST ''/join'' =
        run_stack (valid_of env)
          [validate (BodySchema ''services.session.postJoin''), handle PostJoin]"
      using on by (simp only: dispatch_join)
    from validated_route [OF this, of req] r delegating_handlers(1) [of env0 req0]
    show ?validated
      by (intro exI [of _ "''services.session.postJoin''"] exI [of _ PostJoin]) simp
  next
    assume r: "r = \<lparr>route_method = POST, path = ''/session/login'',
       stack = [validate (BodySchema ''services.session.postLogin''), handle PostLogin]\<rparr>"
    from validated_route [OF dispatch_login, of env enableCreateIdentity req] r
      delegating_handlers(2) [of env0 req0]
    show ?validated
      by (intro exI [of _ "''services.session.postLogin''"] exI [of _ PostLogin]) simp
  next
    assume r: "r = \<lparr>route_method = POST, path = ''/session/password/reset'',
       stack = [validate (BodySchema ''services.session.postPasswordReset''),
                handle PostPasswordReset]\<rparr>"
    from validated_route [OF dispatch_reset, of env enableCreateIdentity req] r
      delegating_handlers(3) [of env0 req0]
    show ?validated
      by (intro exI [of _ "''services.session.postPasswordReset''"] exI [of _ PostPasswordReset])
         simp
  next
    assume r: "r = \<lparr>route_method = POST, path = ''/session/passcode'',
       stack = [validate (BodySchema ''services.session.postPasscode''), handle PostPasscode]\<rparr>"
    from validated_route [OF dispatch_passcode, of env enableCreateIdentity req] r
      delegating_handlers(4) [of env0 req0]
    show ?validated
      by (intro exI [of _ "''services.session.postPasscode''"] exI [of _ PostPasscode]) simp
  qed
  with paths show ?thesis
    by (rule conjI [rotated])
qed

theorem post_routes_validate_first_witness:
  "\<lparr>route_method = POST, path = ''/session/password/reset'',
     stack = [validate (BodySchema ''services.session.postPasswordReset''),
              handle PostPasswordReset]\<rparr> \<in> set (addRoutes True)
   \<and> \<not> valid_of sample_env (BodySchema ''services.session.postPasswordReset'')
   \<and> handle_request sample_env (addRoutes True) POST ''/session/password/reset''
        (session_request None) =
      [Call (Authenticate ''session''),
       Route (Rejected (BodySchema ''services.session.postPasswordReset''))]
   \<and> handler_calls sample_env (sample_request JFalse ''both@example.com'' None)
        PostPasswordReset =
      [ResolveIdentityIdentifier ''both@example.com'', SetIdentityPassword ''a'',
       SetIdentityPassword ''b'']"
proof -
  have registered: "\<lparr>route_method = POST, path = ''/session/password/reset'',
     stack = [validate (BodySchema ''services.session.postPasswordReset''),
              handle PostPasswordReset]\<rparr> \<in> set (addRoutes True)"
    by (simp add: addRoutes_def)
  have invalid: "\<not> valid_of sample_env (BodySchema ''services.session.postPasswordReset'')"
    by (simp add: sample_env_def reject_all_def)
  have run: "handle_request sample_env (addRoutes True) POST ''/session/password/reset''
        (session_request None) =
      [Call (Authenticate ''session''),
       Route (Rejected (BodySchema ''services.session.postPasswordReset''))]"
    by (simp add: handle_request_def passport_session_def expand_def dispatch_reset
        sample_env_def reject_all_def session_request_def)
  have asked: "handler_calls sample_env (sample_request JFalse ''both@example.com'' None)
        PostPasswordReset =
      [ResolveIdentityIdentifier ''both@example.com'', SetIdentityPassword ''a'',
       SetIdentityPassword ''b'']"
    by (simp add: sample_env_def postPasswordReset_calls_def postPasswordReset_def
        reset_loop_def until_if reset_step_def sample_setIdentityPassword_def
        sample_resolve_db_def sample_resolve_def sample_request_def)
  from post_routes_validate_first [OF registered, of sample_env
      "sample_request JFalse ''both@example.com'' None" sample_env "session_request None"]
    registered invalid run asked
  show ?thesis
    by simp
qed

subsection \<open>The password-reset retry loop\<close>

text \<open>
  Claim C7. For every list of identity ids the retry loop of
  \<^verbatim>\<open>POST /session/password/reset\<close> returns. The calls to \<^verbatim>\<open>setIdentityPassword\<close> it
  made are on a prefix of the list, in the list's order, each with the outcome that was
  reported. Either the last call succeeded, every earlier call failed and the ids after
  it were not tried (\<^verbatim>\<open>success\<close> is 1), or every id was tried and every call failed
  (\<^verbatim>\<open>success\<close> is -1).
\<close>

theorem reset_loop_terminates:
  "\<exists>st. reset_loop f b ids db0 = Some (None, st)
      \<and> map fst (calls st) @ identityIds st = ids
      \<and> (\<forall>c\<in>set (calls st). \<exists>d. snd c = fst (f d (fst c) (fst c, b)))
      \<and> ((success st = 1 \<and> calls st \<noteq> [] \<and> snd (last (calls st)) = None
             \<and> (\<forall>c\<in>set (butlast (calls st)). snd c \<noteq> None))
           \<or> (success st = - 1 \<and> identityIds st = []
             \<and> (\<forall>c\<in>set (calls st). snd c \<noteq> None)))"
  using reset_until [of "\<lparr>success = 0, identityIds = ids, db = db0, calls = []\<rparr>" f b]
  unfolding reset_loop_def by auto

theorem reset_loop_terminates_witness:
  "reset_loop sample_setIdentityPassword \<lparr>sysIdentifier = ''both@example.com''\<rparr>
      [''a'', ''b'', ''c''] [] =
     Some (None, \<lparr>success = 1, identityIds = [''c''], db = [''b''],
                  calls = [(''a'', Some (Error ''invalid passcode'')), (''b'', None)]\<rparr>)
   \<and> reset_loop sample_setIdentityPassword \<lparr>sysIdentifier = ''locked@example.com''\<rparr>
      [''a'', ''c''] [] =
     Some (None, \<lparr>success = - 1, identityIds = [], db = [],
                  calls = [(''a'', Some (Error ''invalid passcode'')),
                           (''c'', Some (Error ''invalid passcode''))]\<rparr>)"
  using reset_loop_terminates [of sample_setIdentityPassword
      "\<lparr>sysIdentifier = ''both@example.com''\<rparr>" "[''a'', ''b'', ''c'']" "[]"]
    reset_loop_terminates [of sample_setIdentityPassword
      "\<lparr>sysIdentifier = ''locked@example.com''\<rparr>" "[''a'', ''c'']" "[]"]
  by (simp add: reset_loop_def until_if reset_step_def sample_setIdentityPassword_def)

subsection \<open>POST /session/password/reset\<close>

text \<open>
  Claim C4. The handler of \<^verbatim>\<open>POST /session/password/reset\<close> always answers. It sends
  204 exactly when one of its \<^verbatim>\<open>setIdentityPassword\<close> calls, all of them on identities
  resolved from the submitted \<^verbatim>\<open>sysIdentifier\<close>, succeeded. When the identifier resolves
  to no identity, or the call failed for every resolved identity, it passes the
  \<^verbatim>\<open>BedrockError\<close> of type \<^verbatim>\<open>bedrock.services.PasswordResetFailed\<close> with status 403 to
  \<^verbatim>\<open>next\<close>.
\<close>

theorem postPasswordReset_204_iff:
  "\<exists>r d cs. postPasswordReset resolveIdentityIdentifier setIdentityPassword db0 req =
        Some (r, d, cs)
      \<and> (r = Send 204 \<longleftrightarrow> (\<exists>c\<in>set cs. snd c = None))
      \<and> (\<forall>c\<in>set cs.
            (\<exists>ids. resolveIdentityIdentifier db0 (sysIdentifier (body req)) = Inr ids
               \<and> fst c \<in> set ids)
            \<and> (\<exists>d'. snd c = fst (setIdentityPassword d' (fst c) (fst c, body req))))
      \<and> (\<forall>ids. resolveIdentityIdentifier db0 (sysIdentifier (body req)) = Inr ids \<longrightarrow>
             ids = [] \<or> (\<forall>c\<in>set cs. snd c \<noteq> None) \<longrightarrow>
             map fst cs = ids \<and>
             r = NextWith (BedrockError ''The password reset failed for the given identity.''
                   ''bedrock.services.PasswordResetFailed''
                   [(''sysIdentifier'', DStr (sysIdentifier (body req))),
                    (''httpStatusCode'', DNum 403), (''public'', DBool True)] None))"
proof (cases "resolveIdentityIdentifier db0 (sysIdentifier (body req))")
  case (Inl e)
  then show ?thesis
    by (simp add: postPasswordReset_def)
next
  case (Inr ids)
  obtain st where run: "reset_loop setIdentityPassword (body req) ids db0 = Some (None, st)"
    and pre: "map fst (calls st) @ identityIds st = ids"
    and orc: "\<forall>c\<in>set (calls st).
                \<exists>d. snd c = fst (setIdentityPassword d (fst c) (fst c, body req))"
    and fin: "(success st = 1 \<and> calls st \<noteq> [] \<and> snd (last (calls st)) = None
             \<and> (\<forall>c\<in>set (butlast (calls st)). snd c \<noteq> None))
           \<or> (success st = - 1 \<and> identityIds st = []
             \<and> (\<forall>c\<in>set (calls st). snd c \<noteq> None))"
    using reset_until [of "\<lparr>success = 0, identityIds = ids, db = db0, calls = []\<rparr>"
        setIdentityPassword "body req"]
    unfolding reset_loop_def by auto
  have res: "postPasswordReset resolveIdentityIdentifier setIdentityPassword db0 req =
      Some (if \<not> (success st = 1)
            then NextWith (password_reset_failed (sysIdentifier (body req)))
            else Send 204, db st, calls st)"
    using Inr run by (simp add: postPasswordReset_def)
  have sub: "\<forall>c\<in>set (calls st). fst c \<in> set ids"
    using pre by (metis UnCI image_eqI list.set_map set_append)
  from fin show ?thesis
  proof
    assume ok: "success st = 1 \<and> calls st \<noteq> [] \<and> snd (last (calls st)) = None
             \<and> (\<forall>c\<in>set (butlast (calls st)). snd c \<noteq> None)"
    then have "last (calls st) \<in> set (calls st)"
      by simp
    with ok have some: "\<exists>c\<in>set (calls st). snd c = None"
      by blast
    then have "ids \<noteq> []"
      using pre by auto
    with some ok sub orc Inr show ?thesis
      unfolding res by (intro exI) auto
  next
    assume ko: "success st = - 1 \<and> identityIds st = []
             \<and> (\<forall>c\<in>set (calls st). snd c \<noteq> None)"
    then have "map fst (calls st) = ids"
      using pre by simp
    with ko sub orc Inr show ?thesis
      unfolding res
      by (intro exI)
         (auto simp: password_reset_failed_def MODULE_NS_services_def)
  qed
qed

theorem postPasswordReset_204_iff_witness:
  "postPasswordReset sample_resolve_db sample_setIdentityPassword []
      (sample_request JFalse ''both@example.com'' None) =
     Some (Send 204, [''b''], [(''a'', Some (Error ''invalid passcode'')), (''b'', None)])
   \<and> postPasswordReset sample_resolve_db sample_setIdentityPassword []
      (sample_request JFalse ''locked@example.com'' None) =
     Some (NextWith (BedrockError ''The password reset failed for the given identity.''
                   ''bedrock.services.PasswordResetFailed''
                   [(''sysIdentifier'', DStr ''locked@example.com''),
                    (''httpStatusCode'', DNum 403), (''public'', DBool True)] None),
           [], [(''a'', Some (Error ''invalid passcode'')),
                (''c'', Some (Error ''invalid passcode''))])
   \<and> postPasswordReset sample_resolve_db sample_setIdentityPassword []
      (sample_request JFalse ''nobody@example.com'' None) =
     Some (NextWith (BedrockError ''The password reset failed for the given identity.''
                   ''bedrock.services.PasswordResetFailed''
                   [(''sysIdentifier'', DStr ''nobody@example.com''),
                    (''httpStatusCode'', DNum 403), (''public'', DBool True)] None),
           [], [])"
  using postPasswordReset_204_iff [of sample_resolve_db sample_setIdentityPassword "[]"
      "sample_request JFalse ''both@example.com'' None"]
    postPasswordReset_204_iff [of sample_resolve_db sample_setIdentityPassword "[]"
      "sample_request JFalse ''locked@example.com'' None"]
    postPasswordReset_204_iff [of sample_resolve_db sample_setIdentityPassword "[]"
      "sample_request JFalse ''nobody@example.com'' None"]
  by (simp add: postPasswordReset_def reset_loop_def until_if reset_step_def
      sample_setIdentityPassword_def sample_resolve_db_def sample_resolve_def
      sample_request_def password_reset_failed_def MODULE_NS_services_def)

subsection \<open>POST /session/passcode\<close>

text \<open>
  Claim C5, as stated, at a request whose identifier resolves to one identity id while
  the identity lookup reports an error: the handler passes that error to \<^verbatim>\<open>next\<close>,
  sends no passcode and does not answer 204.
\<close>

theorem postPasscode_lookup_error_counterexample:
  "sample_resolve ''both@example.com'' = Inr [''a'', ''b'', ''c'']
   \<and> postPasscode sample_resolve sample_hash failing_getIdentities
        sample_sendIdentityPasscodes (sample_request JFalse ''both@example.com'' None)
      = (NextWith (Error ''database unavailable''), [])
   \<and> fst (postPasscode sample_resolve sample_hash failing_getIdentities
        sample_sendIdentityPasscodes (sample_request JFalse ''both@example.com'' None))
      \<noteq> Send 204"
  by (simp add: postPasscode_def sample_resolve_def failing_getIdentities_def
      sample_request_def)

text \<open>
  Claim C5, amended. An error from \<^verbatim>\<open>resolveIdentityIdentifier\<close> or from
  \<^verbatim>\<open>getIdentities\<close> goes to \<^verbatim>\<open>next\<close> and no passcode is sent. An identifier that
  resolves to the empty list gives the \<^verbatim>\<open>BedrockError\<close> of type
  \<^verbatim>\<open>bedrock.services.IdentityNotFound\<close> with status 404. Otherwise, with the records
  that \<^verbatim>\<open>getIdentities\<close> returns for the hashed ids, \<^verbatim>\<open>sendIdentityPasscodes\<close> is called
  once with the identities of all these records and the usage \<^verbatim>\<open>'verify'\<close> if the query
  parameter \<^verbatim>\<open>usage\<close> is \<^verbatim>\<open>'verify'\<close> and \<^verbatim>\<open>'reset'\<close> in every other case; the
  handler answers 204 if that call reports no error and passes its error to \<^verbatim>\<open>next\<close>
  otherwise.
\<close>

theorem postPasscode_cases:
  "(\<forall>e. resolveIdentityIdentifier (sysIdentifier (body req)) = Inl e \<longrightarrow>
       postPasscode resolveIdentityIdentifier hash getIdentities sendIdentityPasscodes req =
         (NextWith e, []))
   \<and> (resolveIdentityIdentifier (sysIdentifier (body req)) = Inr [] \<longrightarrow>
       postPasscode resolveIdentityIdentifier hash getIdentities sendIdentityPasscodes req =
         (NextWith (BedrockError ''The given email address is not registered.''
            ''bedrock.services.IdentityNotFound''
            [(''sysIdentifier'', DStr (sysIdentifier (body req))),
             (''httpStatusCode'', DNum 404), (''public'', DBool True)] None), []))
   \<and> (\<forall>ids. resolveIdentityIdentifier (sysIdentifier (body req)) = Inr ids \<longrightarrow> ids \<noteq> [] \<longrightarrow>
       (\<forall>e. getIdentities (map hash ids) = Inl e \<longrightarrow>
          postPasscode resolveIdentityIdentifier hash getIdentities sendIdentityPasscodes req =
            (NextWith e, []))
       \<and> (\<forall>records. getIdentities (map hash ids) = Inr records \<longrightarrow>
            postPasscode resolveIdentityIdentifier hash getIdentities sendIdentityPasscodes req =
              ((case sendIdentityPasscodes (map record_identity records)
                      (if query_usage req = Some ''verify'' then ''verify'' else ''reset'') of
                  None \<Rightarrow> Send 204
                | Some e \<Rightarrow> NextWith e),
               [(map record_identity records,
                 if query_usage req = Some ''verify'' then ''verify'' else ''reset'')])))"
  by (auto simp: postPasscode_def identity_not_found_def MODULE_NS_services_def
      passcode_usage_def Let_def split: option.splits)

theorem postPasscode_cases_witness:
  "postPasscode sample_resolve sample_hash sample_getIdentities sample_sendIdentityPasscodes
      (sample_request JFalse ''nobody@example.com'' None) =
     (NextWith (BedrockError ''The given email address is not registered.''
            ''bedrock.services.IdentityNotFound''
            [(''sysIdentifier'', DStr ''nobody@example.com''),
             (''httpStatusCode'', DNum 404), (''public'', DBool True)] None), [])
   \<and> postPasscode sample_resolve sample_hash sample_getIdentities sample_sendIdentityPasscodes
      (sample_request JFalse ''locked@example.com'' (Some ''verify'')) =
     (Send 204, [([\<lparr>id_field = ''a'', label = ''found''\<rparr>,
                   \<lparr>id_field = ''c'', label = ''found''\<rparr>], ''verify'')])
   \<and> postPasscode sample_resolve sample_hash sample_getIdentities sample_sendIdentityPasscodes
      (sample_request JFalse ''locked@example.com'' (Some ''other'')) =
     (Send 204, [([\<lparr>id_field = ''a'', label = ''found''\<rparr>,
                   \<lparr>id_field = ''c'', label = ''found''\<rparr>], ''reset'')])
   \<and> postPasscode sample_resolve sample_hash sample_getIdentities sample_sendIdentityPasscodes
      (sample_request JFalse ''unknown'' None) = (NextWith (Error ''lookup failed''), [])"
  using postPasscode_cases [of sample_resolve
      "sample_request JFalse ''nobody@example.com'' None" sample_hash sample_getIdentities
      sample_sendIdentityPasscodes]
    postPasscode_cases [of sample_resolve
      "sample_request JFalse ''locked@example.com'' (Some ''verify'')" sample_hash
      sample_getIdentities sample_sendIdentityPasscodes]
    postPasscode_cases [of sample_resolve
      "sample_request JFalse ''locked@example.com'' (Some ''other'')" sample_hash
      sample_getIdentities sample_sendIdentityPasscodes]
    postPasscode_cases [of sample_resolve
      "sample_request JFalse ''unknown'' None" sample_hash sample_getIdentities
      sample_sendIdentityPasscodes]
  by (simp add: sample_resolve_def sample_request_def sample_hash_def
      sample_getIdentities_def sample_sendIdentityPasscodes_def)

subsection \<open>The two login functions\<close>

text \<open>
  Claim C9, as stated, at a login whose credentials match no identity: \<^verbatim>\<open>api.login\<close>
  hands the \<^verbatim>\<open>InvalidLogin\<close> error to its callback, \<^verbatim>\<open>_login\<close> hands the same error to
  \<^verbatim>\<open>next\<close>, so the two do not use the same channel.
\<close>

theorem login_channel_counterexample:
  "login (AuthCallback None JFalse (Some \<lparr>matches = None, email = ''alice@example.com''\<rparr>))
      sample_getIdentity sample_logIn
    = ViaCallback (Some (BedrockError
         ''The email address and password combination you entered is incorrect.''
         ''bedrock.services.InvalidLogin''
         [(''public'', DBool True), (''httpStatusCode'', DNum 400)] None)) JUndefined None
   \<and> private_login
      (AuthCallback None JFalse (Some \<lparr>matches = None, email = ''alice@example.com''\<rparr>))
      sample_getIdentity sample_logIn
    = ViaNext (Some (BedrockError
         ''The email address and password combination you entered is incorrect.''
         ''bedrock.services.InvalidLogin''
         [(''public'', DBool True), (''httpStatusCode'', DNum 400)] None))
   \<and> login (AuthCallback None JFalse (Some \<lparr>matches = None, email = ''alice@example.com''\<rparr>))
      sample_getIdentity sample_logIn
    \<noteq> private_login
      (AuthCallback None JFalse (Some \<lparr>matches = None, email = ''alice@example.com''\<rparr>))
      sample_getIdentity sample_logIn"
  by (simp add: login_def private_login_def invalid_login_def MODULE_NS_services_def)

text \<open>
  Claim C9, amended. For every behaviour of the password strategy, the identity lookups
  and \<^verbatim>\<open>req.logIn\<close>, \<^verbatim>\<open>api.login\<close> and \<^verbatim>\<open>_login\<close> deliver the same error (with the same
  type string), the same user and the same choice of identities. They behave alike,
  channel included, when passport itself calls \<^verbatim>\<open>next\<close>, when the strategy's callback
  brings neither a user nor an info object (both throw), when the choice among several
  matching identities is built, and when \<^verbatim>\<open>req.logIn\<close> is reached. They differ only
  in the channel, and in exactly three cases: an identity lookup fails while the choice
  is built; the strategy brings no user and no matches, where the error is
  \<^verbatim>\<open>InvalidLogin\<close>, which replaces any error of the strategy; the strategy brings an
  error together with a user. There \<^verbatim>\<open>api.login\<close> calls \<^verbatim>\<open>callback(err)\<close> and
  \<^verbatim>\<open>_login\<close> calls \<^verbatim>\<open>next(err)\<close>.
\<close>

theorem login_same_payload:
  "delivered (private_login strategy getIdentity logIn) =
     delivered (login strategy getIdentity logIn)
   \<and> private_login strategy getIdentity logIn =
      (case login strategy getIdentity logIn of
         ViaCallback (Some e) JUndefined None \<Rightarrow> ViaNext (Some e)
       | r \<Rightarrow> r)
   \<and> (\<forall>e. strategy = AuthNext e \<longrightarrow>
         login strategy getIdentity logIn = ViaNext e
         \<and> private_login strategy getIdentity logIn = ViaNext e)
   \<and> (\<forall>err u. strategy = AuthCallback err u None \<longrightarrow> \<not> truthy u \<longrightarrow>
         login strategy getIdentity logIn =
           LoginThrew (TypeError ''Cannot read property matches of undefined'')
         \<and> private_login strategy getIdentity logIn =
           LoginThrew (TypeError ''Cannot read property matches of undefined''))
   \<and> (\<forall>err u i ms. strategy = AuthCallback err u (Some i) \<longrightarrow> \<not> truthy u \<longrightarrow>
         matches i = Some ms \<longrightarrow>
         (\<forall>ids. forEach_getIdentity getIdentity ms Map.empty = Inr ids \<longrightarrow>
            login strategy getIdentity logIn =
              ViaCallback None JFalse (Some \<lparr>choice_email = email i, identities = ids\<rparr>)
            \<and> private_login strategy getIdentity logIn =
              ViaCallback None JFalse (Some \<lparr>choice_email = email i, identities = ids\<rparr>))
         \<and> (\<forall>e. forEach_getIdentity getIdentity ms Map.empty = Inl e \<longrightarrow>
            login strategy getIdentity logIn = ViaCallback (Some e) JUndefined None
            \<and> private_login strategy getIdentity logIn = ViaNext (Some e)))
   \<and> (\<forall>err u i. strategy = AuthCallback err u (Some i) \<longrightarrow> \<not> truthy u \<longrightarrow>
         matches i = None \<longrightarrow>
         login strategy getIdentity logIn =
           ViaCallback (Some (BedrockError
             ''The email address and password combination you entered is incorrect.''
             ''bedrock.services.InvalidLogin''
             [(''public'', DBool True), (''httpStatusCode'', DNum 400)] None)) JUndefined None
         \<and> private_login strategy getIdentity logIn =
           ViaNext (Some (BedrockError
             ''The email address and password combination you entered is incorrect.''
             ''bedrock.services.InvalidLogin''
             [(''public'', DBool True), (''httpStatusCode'', DNum 400)] None)))
   \<and> (\<forall>e u i. strategy = AuthCallback (Some e) u i \<longrightarrow> truthy u \<longrightarrow>
         login strategy getIdentity logIn = ViaCallback (Some e) JUndefined None
         \<and> private_login strategy getIdentity logIn = ViaNext (Some e))
   \<and> (\<forall>u i. strategy = AuthCallback None u i \<longrightarrow> truthy u \<longrightarrow>
         login strategy getIdentity logIn = ViaCallback (logIn u) u None
         \<and> private_login strategy getIdentity logIn = ViaCallback (logIn u) u None)"
proof (intro conjI)
  show "delivered (private_login strategy getIdentity logIn) =
     delivered (login strategy getIdentity logIn)"
    by (auto simp: login_def private_login_def invalid_login_def MODULE_NS_services_def
        split: auth_outcome.splits option.splits sum.splits)
  show "private_login strategy getIdentity logIn =
      (case login strategy getIdentity logIn of
         ViaCallback (Some e) JUndefined None \<Rightarrow> ViaNext (Some e)
       | r \<Rightarrow> r)"
    by (auto simp: login_def private_login_def invalid_login_def MODULE_NS_services_def
        split: auth_outcome.splits option.splits sum.splits userval.splits)
qed (simp_all add: login_def private_login_def invalid_login_def MODULE_NS_services_def)

theorem login_same_payload_witness:
  "login (AuthCallback None JFalse
       (Some \<lparr>matches = Some [''a'', ''c''], email = ''alice@example.com''\<rparr>))
      sample_getIdentity sample_logIn =
     ViaCallback None JFalse
       (Some \<lparr>choice_email = ''alice@example.com'',
              identities = [''a'' \<mapsto> \<lparr>id_field = ''a'', label = ''found''\<rparr>,
                            ''c'' \<mapsto> \<lparr>id_field = ''c'', label = ''found''\<rparr>]\<rparr>)
   \<and> private_login (AuthCallback None JFalse
       (Some \<lparr>matches = Some [''a'', ''c''], email = ''alice@example.com''\<rparr>))
      sample_getIdentity sample_logIn =
     login (AuthCallback None JFalse
       (Some \<lparr>matches = Some [''a'', ''c''], email = ''alice@example.com''\<rparr>))
      sample_getIdentity sample_logIn
   \<and> private_login (AuthCallback None (JUser alice) None) sample_getIdentity sample_logIn =
     ViaCallback None (JUser alice) None
   \<and> login (AuthCallback (Some (Error ''store down'')) (JUser alice) None)
        sample_getIdentity sample_logIn =
     ViaCallback (Some (Error ''store down'')) JUndefined None
   \<and> private_login (AuthCallback (Some (Error ''store down'')) (JUser alice) None)
        sample_getIdentity sample_logIn =
     ViaNext (Some (Error ''store down''))
   \<and> login (AuthNext (Some (Error ''unknown strategy''))) sample_getIdentity sample_logIn =
     ViaNext (Some (Error ''unknown strategy''))
   \<and> private_login (AuthNext (Some (Error ''unknown strategy'')))
        sample_getIdentity sample_logIn =
     ViaNext (Some (Error ''unknown strategy''))
   \<and> private_login (AuthCallback (Some (Error ''store down'')) JFalse None)
        sample_getIdentity sample_logIn =
     LoginThrew (TypeError ''Cannot read property matches of undefined'')"
  using login_same_payload [of "AuthCallback None JFalse
       (Some \<lparr>matches = Some [''a'', ''c''], email = ''alice@example.com''\<rparr>)"
      sample_getIdentity sample_logIn]
    login_same_payload [of "AuthCallback None (JUser alice) None"
      sample_getIdentity sample_logIn]
    login_same_payload [of "AuthCallback (Some (Error ''store down'')) (JUser alice) None"
      sample_getIdentity sample_logIn]
    login_same_payload [of "AuthNext (Some (Error ''unknown strategy''))"
      sample_getIdentity sample_logIn]
    login_same_payload [of "AuthCallback (Some (Error ''store down'')) JFalse None"
      sample_getIdentity sample_logIn]
  by (simp add: login_def sample_getIdentity_def sample_logIn_def)


end
